theory Spec2Isabelle
  imports Main "HOL-Library.Sublist"
begin

section \<open>Python values the program relies on\<close>

text \<open>
  Python strings are modelled as \<open>string\<close>, a character standing for a code point
  below 256. Every raise of the source is a value of \<open>error\<close>; a function of the source
  that contains an operation that can raise returns \<open>error + 'a\<close>, with \<open>Inl\<close> for
  the raised exception. \<open>Unsupported\<close> marks the inputs of a library function that the
  model does not cover; it is treated as an exception that nothing catches. Python integers
  are unbounded (\<open>int\<close>, \<open>nat\<close> for lengths); the interpreter's configurable limit
  on the number of digits \<open>int()\<close> converts is not part of the model.
\<close>

datatype error = KeyError | IndexError | ValueError | TypeError | Unsupported

text \<open>\<open>xs[i]\<close> for a non-negative index: IndexError out of range.\<close>

definition index_py :: "'a list \<Rightarrow> nat \<Rightarrow> error + 'a" where
  "index_py xs i = (if i < length xs then Inr (xs ! i) else Inl IndexError)"

text \<open>\<open>s.split(c)\<close> for a one-character separator: never the empty list.\<close>

fun split_chr :: "char \<Rightarrow> string \<Rightarrow> string list" where
  "split_chr c [] = [[]]"
| "split_chr c (x # xs) =
     (if x = c then [] # split_chr c xs
      else (case split_chr c xs of
              [] \<Rightarrow> [[x]]
            | l # ls \<Rightarrow> (x # l) # ls))"


abbreviation dq :: char where "dq \<equiv> CHR 0x22"
abbreviation sq :: char where "sq \<equiv> CHR 0x27"
abbreviation nl :: char where "nl \<equiv> CHR 0x0A"

text \<open>\<open>str.isspace\<close> for one character below 256.\<close>

definition is_space :: "char \<Rightarrow> bool" where
  "is_space c = (let n = (of_char c :: nat) in
     (9 \<le> n \<and> n \<le> 13) \<or> (28 \<le> n \<and> n \<le> 32) \<or> n = 133 \<or> n = 160)"

text \<open>\<open>s.strip()\<close>: leading and trailing whitespace removed.\<close>

definition strip :: "string \<Rightarrow> string" where
  "strip s = rev (dropWhile is_space (rev (dropWhile is_space s)))"

text \<open>\<open>s.startswith(p)\<close>, \<open>s.endswith(p)\<close> and \<open>sub in s\<close>.\<close>

definition startswith :: "string \<Rightarrow> string \<Rightarrow> bool" where
  "startswith s p = prefix p s"

definition endswith :: "string \<Rightarrow> string \<Rightarrow> bool" where
  "endswith s p = suffix p s"

fun contains :: "string \<Rightarrow> string \<Rightarrow> bool" where
  "contains sub [] = (sub = [])"
| "contains sub (x # xs) = (prefix sub (x # xs) \<or> contains sub xs)"

text \<open>
  \<open>s.split(sep, 1)\<close> for a non-empty separator: the text before and after the first
  occurrence of \<open>sep\<close>, or the single element \<open>s\<close> when \<open>sep\<close> does not occur.
\<close>

fun split_max1 :: "string \<Rightarrow> string \<Rightarrow> string list" where
  "split_max1 sep [] = [[]]"
| "split_max1 sep (x # xs) =
     (if prefix sep (x # xs) then [[], drop (length sep) (x # xs)]
      else (case split_max1 sep xs of
              [] \<Rightarrow> [[x]]
            | a # rest \<Rightarrow> (x # a) # rest))"

text \<open>\<open>sep.join(xs)\<close>.\<close>

fun join_py :: "string \<Rightarrow> string list \<Rightarrow> string" where
  "join_py sep [] = []"
| "join_py sep [x] = x"
| "join_py sep (x # y # ys) = x @ sep @ join_py sep (y # ys)"

text \<open>
  \<open>int(s)\<close> on a string of decimal digits. Any other string is reported as ValueError: the
  program only converts what \<open>\d+\<close> has matched, and for the strings Python would accept
  besides (signs, blanks, underscores) the model raises where Python does not.
\<close>

definition digit :: "char \<Rightarrow> bool" where
  "digit c = (c \<in> set ''0123456789'')"

definition digit_val :: "char \<Rightarrow> int" where
  "digit_val c = int (of_char c) - 48"

definition int_py :: "string \<Rightarrow> error + int" where
  "int_py s = (if s \<noteq> [] \<and> list_all digit s
               then Inr (foldl (\<lambda>a c. 10 * a + digit_val c) 0 s)
               else Inl ValueError)"

text \<open>\<open>str(n)\<close> for an integer, as an f-string renders it.\<close>

function str_nat :: "nat \<Rightarrow> string" where
  "str_nat n = (if n < 10 then [char_of (48 + n)]
                else str_nat (n div 10) @ [char_of (48 + n mod 10)])"
  by pat_completeness auto
termination
  by (relation "measure id") auto

definition str_int :: "int \<Rightarrow> string" where
  "str_int i = (if i < 0 then CHR ''-'' # str_nat (nat (- i)) else str_nat (nat i))"

text \<open>
  \<open>s.capitalize()\<close>: the first character in upper case, the others in lower case. Only the
  letters of ASCII change case in the model.
\<close>

definition upper_chr :: "char \<Rightarrow> char" where
  "upper_chr c = (let n = (of_char c :: nat) in
     if 97 \<le> n \<and> n \<le> 122 then char_of (n - 32) else c)"

definition lower_chr :: "char \<Rightarrow> char" where
  "lower_chr c = (let n = (of_char c :: nat) in
     if 65 \<le> n \<and> n \<le> 90 then char_of (n + 32) else c)"

definition capitalize :: "string \<Rightarrow> string" where
  "capitalize s = (case s of [] \<Rightarrow> [] | c # cs \<Rightarrow> upper_chr c # map lower_chr cs)"

text \<open>
  \<open>template.format(**kw)\<close> with string values. The model covers literal text, the escapes
  \<open>{{\<close> and \<open>}}\<close>, and replacement fields \<open>{name}\<close> that are a bare keyword name; a missing
  name raises KeyError, a field with no name or a number asks for a positional argument
  and raises IndexError (none is passed), a lone brace raises ValueError. Fields with an
  attribute, an index, a conversion or a format specification are \<open>Unsupported\<close>.
\<close>

definition field_unsupported :: "string \<Rightarrow> bool" where
  "field_unsupported name = (\<exists>c \<in> set name. c \<in> set ''{[.!:'')"

function format_py :: "string \<Rightarrow> (string \<rightharpoonup> string) \<Rightarrow> error + string" where
  "format_py [] kw = Inr []"
| "format_py (c # cs) kw =
     (if c = CHR ''{'' then
        (case cs of
           [] \<Rightarrow> Inl ValueError
         | d # ds \<Rightarrow>
             if d = CHR ''{'' then map_sum id ((#) CHR ''{'') (format_py ds kw)
             else
               (let name = takeWhile (\<lambda>x. x \<noteq> CHR ''}'') cs;
                    rest = dropWhile (\<lambda>x. x \<noteq> CHR ''}'') cs
                in if rest = [] then Inl ValueError
                   else if field_unsupported name then Inl Unsupported
                   else if list_all digit name then Inl IndexError
                   else (case kw name of
                           None \<Rightarrow> Inl KeyError
                         | Some v \<Rightarrow> map_sum id ((@) v) (format_py (tl rest) kw))))
      else if c = CHR ''}'' then
        (case cs of
           [] \<Rightarrow> Inl ValueError
         | d # ds \<Rightarrow>
             if d = CHR ''}'' then map_sum id ((#) CHR ''}'') (format_py ds kw)
             else Inl ValueError)
      else map_sum id ((#) c) (format_py cs kw))"
  by pat_completeness auto
termination
proof (relation "measure (\<lambda>(s, kw). length s)")
  show "wf (measure (\<lambda>(s, kw). length s))" by simp
next
  fix c :: char and cs :: string and kw :: "string \<rightharpoonup> string" and d ds name rest
  assume "rest = dropWhile (\<lambda>x. x \<noteq> CHR ''}'') cs"
  then have "length rest \<le> length cs"
    by (simp add: length_dropWhile_le)
  moreover have "length (tl rest) \<le> length rest"
    by simp
  ultimately have "length (tl rest) \<le> length cs"
    by (rule order_trans [rotated])
  then show "((tl rest, kw), c # cs, kw) \<in> measure (\<lambda>(s, kw). length s)" by simp
qed auto

section \<open>Regular expressions of module \<open>re\<close>\<close>

text \<open>
  The patterns of the program use literal text, character classes, \<open>+\<close> on a character
  class, \<open>?\<close> and groups. \<open>rmatch r s g k\<close> matches \<open>r\<close> at the start of \<open>s\<close> as a backtracking
  matcher does: \<open>k\<close> is what remains to be matched, \<open>+\<close> and \<open>?\<close> are greedy and give back
  one step at a time when the rest fails. \<open>g\<close> holds the text of the groups matched so far.
  \<open>rsearch\<close> is \<open>pattern.search\<close>: the match at the leftmost position that has one.
\<close>

type_synonym caps = "nat \<rightharpoonup> string"

datatype rx =
    Lit string
  | Cls "char \<Rightarrow> bool"
  | Plus "char \<Rightarrow> bool"
  | Opt rx
  | Cat rx rx
  | Grp nat rx

fun rmatch :: "rx \<Rightarrow> string \<Rightarrow> caps \<Rightarrow> (string \<Rightarrow> caps \<Rightarrow> caps option) \<Rightarrow> caps option" where
  "rmatch (Lit w) s g k = (if prefix w s then k (drop (length w) s) g else None)"
| "rmatch (Cls P) s g k =
     (case s of [] \<Rightarrow> None | c # cs \<Rightarrow> if P c then k cs g else None)"
| "rmatch (Plus P) s g k =
     (case s of
        [] \<Rightarrow> None
      | c # cs \<Rightarrow>
          if P c
          then (case rmatch (Plus P) cs g k of Some r \<Rightarrow> Some r | None \<Rightarrow> k cs g)
          else None)"
| "rmatch (Opt a) s g k = (case rmatch a s g k of Some r \<Rightarrow> Some r | None \<Rightarrow> k s g)"
| "rmatch (Cat a b) s g k = rmatch a s g (\<lambda>s' g'. rmatch b s' g' k)"
| "rmatch (Grp i a) s g k =
     rmatch a s g (\<lambda>s' g'. k s' (g'(i \<mapsto> take (length s - length s') s)))"

definition rmatch_here :: "rx \<Rightarrow> string \<Rightarrow> caps option" where
  "rmatch_here r s = rmatch r s Map.empty (\<lambda>s' g. Some g)"

fun rsearch :: "rx \<Rightarrow> string \<Rightarrow> caps option" where
  "rsearch r [] = rmatch_here r []"
| "rsearch r (c # cs) =
     (case rmatch_here r (c # cs) of Some g \<Rightarrow> Some g | None \<Rightarrow> rsearch r cs)"

definition quote :: "char \<Rightarrow> bool" where
  "quote c = (c = sq \<or> c = dq)"

definition not_quote :: "char \<Rightarrow> bool" where
  "not_quote c = (\<not> quote c)"

section \<open>mappings/packages.py\<close>

definition PACKAGE_NAME_MAP :: "(string \<times> string) list" where
  "PACKAGE_NAME_MAP = [
    (''cv2'', ''opencv-python''),
    (''sklearn'', ''scikit-learn''),
    (''PIL'', ''pillow''),
    (''yaml'', ''pyyaml''),
    (''bs4'', ''beautifulsoup4''),
    (''dateutil'', ''python-dateutil''),
    (''dotenv'', ''python-dotenv''),
    (''jwt'', ''pyjwt''),
    (''magic'', ''python-magic''),
    (''serial'', ''pyserial''),
    (''usb'', ''pyusb''),
    (''wx'', ''wxpython''),
    (''gi'', ''pygobject''),
    (''cairo'', ''pycairo''),
    (''Crypto'', ''pycryptodome''),
    (''OpenSSL'', ''pyopenssl''),
    (''MySQLdb'', ''mysqlclient''),
    (''psycopg2'', ''psycopg2-binary''),
    (''lxml'', ''lxml''),
    (''skimage'', ''scikit-image''),
    (''tensorflow'', ''tensorflow''),
    (''tf'', ''tensorflow''),
    (''torch'', ''torch''),
    (''torchvision'', ''torchvision''),
    (''transformers'', ''transformers''),
    (''langchain'', ''langchain''),
    (''openai'', ''openai''),
    (''anthropic'', ''anthropic''),
    (''httpx'', ''httpx''),
    (''aiohttp'', ''aiohttp''),
    (''fastapi'', ''fastapi''),
    (''flask'', ''flask''),
    (''django'', ''django''),
    (''sqlalchemy'', ''sqlalchemy''),
    (''alembic'', ''alembic''),
    (''celery'', ''celery''),
    (''redis'', ''redis''),
    (''boto3'', ''boto3''),
    (''botocore'', ''botocore''),
    (''google.cloud'', ''google-cloud-core''),
    (''azure'', ''azure-core'')]"

text \<open>
  \<open>base_module = import_name.split(".")[0]\<close>;
  \<open>return PACKAGE_NAME_MAP.get(base_module, import_name)\<close>.
\<close>

definition get_correct_package_name :: "string \<Rightarrow> error + string" where
  "get_correct_package_name import_name =
     (case index_py (split_chr CHR ''.'' import_name) 0 of
        Inl e \<Rightarrow> Inl e
      | Inr base_module \<Rightarrow>
          Inr (case map_of PACKAGE_NAME_MAP base_module of
                 Some package \<Rightarrow> package
               | None \<Rightarrow> import_name))"

text \<open>The leading dotted component of a string: everything before its first dot.\<close>

definition leading_component :: "string \<Rightarrow> string" where
  "leading_component s = takeWhile (\<lambda>c. c \<noteq> CHR ''.'') s"

section \<open>mappings/error_fixes.py\<close>

record FixSuggestion =
  message_template :: string
  action_template :: "string option"

definition ERROR_FIX_MAP :: "(string \<times> FixSuggestion) list" where
  "ERROR_FIX_MAP = [
    (''ModuleNotFoundError'',
      \<lparr>message_template = ''Module '{module}' is not installed.'',
       action_template = Some ''uv add {package}''\<rparr>),
    (''ImportError'',
      \<lparr>message_template = ''Cannot import '{name}' from '{module}'.'',
       action_template = Some ''Check if the module is installed correctly: uv add {package}''\<rparr>),
    (''FileNotFoundError'',
      \<lparr>message_template = ''File or directory not found: '{path}'.'',
       action_template =
         Some ''Verify the path exists. Current directory: use os.getcwd() to check.''\<rparr>),
    (''PermissionError'',
      \<lparr>message_template = ''Permission denied: '{path}'.'',
       action_template = Some ''Check file permissions or run with appropriate privileges.''\<rparr>),
    (''NameError'',
      \<lparr>message_template = ''Name '{name}' is not defined.'',
       action_template = Some ''Define the variable before use, or check for typos.''\<rparr>),
    (''AttributeError'',
      \<lparr>message_template = [sq] @ ''{type}' object has no attribute '{attribute}'.'',
       action_template = Some ''Check the object type and available attributes using dir().''\<rparr>),
    (''TypeError'',
      \<lparr>message_template = ''Type error in operation.'',
       action_template = Some ''Check argument types. Use type() to inspect values.''\<rparr>),
    (''ValueError'',
      \<lparr>message_template = ''Invalid value provided.'',
       action_template = Some ''Check the expected value format or range.''\<rparr>),
    (''KeyError'',
      \<lparr>message_template = ''Key '{key}' not found in dictionary.'',
       action_template =
         Some ''Use .get(key, default) for safe access, or check available keys.''\<rparr>),
    (''IndexError'',
      \<lparr>message_template = ''Index out of range.'',
       action_template = Some ''Check sequence length with len() before accessing.''\<rparr>),
    (''ZeroDivisionError'',
      \<lparr>message_template = ''Division by zero.'',
       action_template = Some ''Add a check for zero before dividing.''\<rparr>),
    (''SyntaxError'',
      \<lparr>message_template = ''Syntax error in code.'',
       action_template = Some ''Check for missing colons, parentheses, or quotes.''\<rparr>),
    (''IndentationError'',
      \<lparr>message_template = ''Indentation error.'',
       action_template = Some ''Use consistent indentation (4 spaces recommended).''\<rparr>),
    (''ConnectionError'',
      \<lparr>message_template = ''Connection failed.'',
       action_template = Some ''Check network connectivity and the target URL/host.''\<rparr>),
    (''TimeoutError'',
      \<lparr>message_template = ''Operation timed out.'',
       action_template = Some ''Increase timeout or check if the service is responding.''\<rparr>),
    (''MemoryError'',
      \<lparr>message_template = ''Out of memory.'',
       action_template = Some ''Reduce data size, use generators, or process in chunks.''\<rparr>),
    (''RecursionError'',
      \<lparr>message_template = ''Maximum recursion depth exceeded.'',
       action_template = Some ''Add a base case or convert to iterative approach.''\<rparr>)]"

section \<open>middleware/error_handler.py\<close>

record ParsedError =
  error_type :: string
  error_message :: string
  file_path :: "string option"
  line_number :: "int option"
  function_name :: "string option"
  code_context :: "string option"
  extracted_values :: "string \<rightharpoonup> string"

record ErrorAnalysis =
  parsed_error :: ParsedError
  fix_suggestion :: "FixSuggestion option"
  claude_tip :: string
  claude_next :: string
  suggested_action :: "string option"

text \<open>The compiled patterns of \<open>ErrorHandler\<close>, in the order of the source.\<close>

definition quoted_name :: "nat \<Rightarrow> rx" where
  \<comment> \<open>\<open>['\"]?([^'\"]+)['\"]?\<close> with the group numbered \<open>i\<close>\<close>
  "quoted_name i = Cat (Opt (Cls quote)) (Cat (Grp i (Plus not_quote)) (Opt (Cls quote)))"

definition MODULE_NOT_FOUND_PATTERN :: rx where
  "MODULE_NOT_FOUND_PATTERN = Cat (Lit ''No module named '') (quoted_name 1)"

definition IMPORT_ERROR_PATTERN :: rx where
  "IMPORT_ERROR_PATTERN = Cat (Lit ''cannot import name '') (quoted_name 1)"

definition NAME_ERROR_PATTERN :: rx where
  "NAME_ERROR_PATTERN =
     Cat (Lit ''name '') (Cat (quoted_name 1) (Lit '' is not defined''))"

definition ATTRIBUTE_ERROR_PATTERN :: rx where
  "ATTRIBUTE_ERROR_PATTERN =
     Cat (quoted_name 1) (Cat (Lit '' object has no attribute '') (quoted_name 2))"

definition KEY_ERROR_PATTERN :: rx where
  "KEY_ERROR_PATTERN = quoted_name 1"

definition FILE_NOT_FOUND_PATTERN :: rx where
  "FILE_NOT_FOUND_PATTERN =
     Cat (Lit ''[Errno 2] No such file or directory: '') (quoted_name 1)"

definition TRACEBACK_LINE_PATTERN :: rx where
  \<comment> \<open>\<open>File "([^"]+)", line (\d+)(?:, in ([^\n]+))?\<close>\<close>
  "TRACEBACK_LINE_PATTERN =
     Cat (Lit (''File '' @ [dq]))
    (Cat (Grp 1 (Plus (\<lambda>c. c \<noteq> dq)))
    (Cat (Lit (dq # '', line ''))
    (Cat (Grp 2 (Plus digit))
         (Opt (Cat (Lit '', in '') (Grp 3 (Plus (\<lambda>c. c \<noteq> nl))))))))"

text \<open>
  \<open>match.group(i)\<close> where the program uses the result as a string. A group that took no
  part in the match gives None in Python; the model raises TypeError there, which is
  at least what the program would do with it.
\<close>

definition group_str :: "caps \<Rightarrow> nat \<Rightarrow> error + string" where
  "group_str m i = (case m i of None \<Rightarrow> Inl TypeError | Some v \<Rightarrow> Inr v)"

definition extract_error_values :: "string \<Rightarrow> string \<Rightarrow> error + (string \<rightharpoonup> string)" where
  "extract_error_values etype emsg =
     (if etype = ''ModuleNotFoundError'' then
        (case rsearch MODULE_NOT_FOUND_PATTERN emsg of
           None \<Rightarrow> Inr Map.empty
         | Some m \<Rightarrow>
             (case group_str m 1 of
                Inl e \<Rightarrow> Inl e
              | Inr module \<Rightarrow>
                  (case get_correct_package_name module of
                     Inl e \<Rightarrow> Inl e
                   | Inr package \<Rightarrow>
                       Inr [''module'' \<mapsto> module, ''package'' \<mapsto> package])))
      else if etype = ''ImportError'' then
        (case rsearch IMPORT_ERROR_PATTERN emsg of
           None \<Rightarrow> Inr Map.empty
         | Some m \<Rightarrow> map_sum id (\<lambda>v. [''name'' \<mapsto> v]) (group_str m 1))
      else if etype = ''NameError'' then
        (case rsearch NAME_ERROR_PATTERN emsg of
           None \<Rightarrow> Inr Map.empty
         | Some m \<Rightarrow> map_sum id (\<lambda>v. [''name'' \<mapsto> v]) (group_str m 1))
      else if etype = ''AttributeError'' then
        (case rsearch ATTRIBUTE_ERROR_PATTERN emsg of
           None \<Rightarrow> Inr Map.empty
         | Some m \<Rightarrow>
             (case group_str m 1 of
                Inl e \<Rightarrow> Inl e
              | Inr t \<Rightarrow>
                  map_sum id (\<lambda>a. [''type'' \<mapsto> t, ''attribute'' \<mapsto> a]) (group_str m 2)))
      else if etype = ''KeyError'' then
        (case rsearch KEY_ERROR_PATTERN emsg of
           None \<Rightarrow> Inr Map.empty
         | Some m \<Rightarrow> map_sum id (\<lambda>v. [''key'' \<mapsto> v]) (group_str m 1))
      else if etype = ''FileNotFoundError'' then
        (case rsearch FILE_NOT_FOUND_PATTERN emsg of
           None \<Rightarrow> Inr Map.empty
         | Some m \<Rightarrow> map_sum id (\<lambda>v. [''path'' \<mapsto> v]) (group_str m 1))
      else Inr Map.empty)"

text \<open>
  The first loop of \<open>parse_traceback\<close>, over \<open>reversed(lines)\<close>: the first line that holds
  \<open>": "\<close> and does not start with a space sets the type and the message and ends the loop.
  The second argument is the pair the loop starts from.
\<close>

fun find_error_line :: "string list \<Rightarrow> string \<times> string \<Rightarrow> error + string \<times> string" where
  "find_error_line [] acc = Inr acc"
| "find_error_line (line # rest) acc =
     (if contains '': '' line \<and> \<not> startswith line '' '' then
        (let parts = split_max1 '': '' line in
         case index_py parts 0 of
           Inl e \<Rightarrow> Inl e
         | Inr p0 \<Rightarrow>
             if length parts > 1 then
               (case index_py parts 1 of
                  Inl e \<Rightarrow> Inl e
                | Inr p1 \<Rightarrow> Inr (strip p0, strip p1))
             else Inr (strip p0, []))
      else find_error_line rest acc)"

text \<open>
  The second loop, \<open>for i, line in enumerate(lines)\<close>: the four variables it assigns are
  the state, and \<open>frame_step lines i\<close> is the body of the loop at index \<open>i\<close>.
\<close>

record frame_vars =
  v_file_path :: "string option"
  v_line_number :: "int option"
  v_function_name :: "string option"
  v_code_context :: "string option"

definition frame_step :: "string list \<Rightarrow> nat \<Rightarrow> frame_vars \<Rightarrow> error + frame_vars" where
  "frame_step lines i st =
     (case rsearch TRACEBACK_LINE_PATTERN (lines ! i) of
        None \<Rightarrow> Inr st
      | Some m \<Rightarrow>
          (case (case m 2 of None \<Rightarrow> Inl TypeError | Some ds \<Rightarrow> int_py ds) of
             Inl e \<Rightarrow> Inl e
           | Inr n \<Rightarrow>
               (let st' = st\<lparr>v_file_path := m 1, v_line_number := Some n,
                             v_function_name := m 3\<rparr>
                in if i + 1 < length lines then
                     (case index_py lines (i + 1) of
                        Inl e \<Rightarrow> Inl e
                      | Inr nxt \<Rightarrow>
                          if startswith nxt ''    ''
                          then Inr (st'\<lparr>v_code_context := Some (strip nxt)\<rparr>)
                          else Inr st')
                   else Inr st')))"

fun frame_loop :: "string list \<Rightarrow> nat list \<Rightarrow> frame_vars \<Rightarrow> error + frame_vars" where
  "frame_loop lines [] st = Inr st"
| "frame_loop lines (i # is) st =
     (case frame_step lines i st of
        Inl e \<Rightarrow> Inl e
      | Inr st' \<Rightarrow> frame_loop lines is st')"

definition parse_traceback :: "string \<Rightarrow> error + ParsedError" where
  "parse_traceback traceback_text =
     (let lines = split_chr nl (strip traceback_text) in
      case find_error_line (rev lines) (''UnknownError'', []) of
        Inl e \<Rightarrow> Inl e
      | Inr (etype, emsg) \<Rightarrow>
          (case frame_loop lines [0 ..< length lines]
                  \<lparr>v_file_path = None, v_line_number = None,
                   v_function_name = None, v_code_context = None\<rparr> of
             Inl e \<Rightarrow> Inl e
           | Inr st \<Rightarrow>
               (case extract_error_values etype emsg of
                  Inl e \<Rightarrow> Inl e
                | Inr values \<Rightarrow>
                    Inr \<lparr>error_type = etype, error_message = emsg,
                         file_path = v_file_path st, line_number = v_line_number st,
                         function_name = v_function_name st,
                         code_context = v_code_context st,
                         extracted_values = values\<rparr>)))"

text \<open>
  \<open>try: return template.format(**values)\<close> with an \<open>except KeyError\<close> clause: the result of
  the handler replaces a KeyError, any other exception goes on to the caller.
\<close>

definition except_KeyError :: "error + 'a \<Rightarrow> error + 'a \<Rightarrow> error + 'a" where
  "except_KeyError body handler =
     (case body of Inl KeyError \<Rightarrow> handler | Inl e \<Rightarrow> Inl e | Inr v \<Rightarrow> Inr v)"

definition generate_claude_tip :: "ParsedError \<Rightarrow> FixSuggestion option \<Rightarrow> error + string" where
  "generate_claude_tip parsed fix =
     (let location =
            (case (file_path parsed, line_number parsed) of
               (Some f, Some n) \<Rightarrow>
                 if f \<noteq> [] \<and> n \<noteq> 0 then '' at '' @ f @ '':'' @ str_int n else []
             | _ \<Rightarrow> []);
          plain = Inr (error_type parsed @ location @ '': '' @ error_message parsed)
      in case fix of
           None \<Rightarrow> plain
         | Some f \<Rightarrow>
             if message_template f \<noteq> []
             then except_KeyError
                    (format_py (message_template f) (extracted_values parsed)) plain
             else plain)"

definition generate_claude_next :: "ParsedError \<Rightarrow> FixSuggestion option \<Rightarrow> error + string" where
  "generate_claude_next parsed fix =
     (if error_type parsed = ''ModuleNotFoundError'' then
        (let package = (case extracted_values parsed ''package'' of
                          None \<Rightarrow> [] | Some p \<Rightarrow> p)
         in if package \<noteq> []
            then Inr (''Install the missing package using: uv add '' @ package)
            else Inr ''Install the missing module using uv or pip.'')
      else if error_type parsed = ''NameError'' then
        (let name = (case extracted_values parsed ''name'' of None \<Rightarrow> [] | Some n \<Rightarrow> n)
         in Inr (''Define '' @ [sq] @ name @ [sq] @ '' before using it, or check for typos.''))
      else if error_type parsed = ''FileNotFoundError'' then
        Inr ''Verify the file path. Use os.getcwd() to check current directory.''
      else
        (case (case fix of None \<Rightarrow> None | Some f \<Rightarrow> action_template f) of
           Some t \<Rightarrow>
             if t \<noteq> []
             then except_KeyError (format_py t (extracted_values parsed)) (Inr t)
             else Inr ''Review the error and fix the underlying issue.''
         | None \<Rightarrow> Inr ''Review the error and fix the underlying issue.''))"

definition generate_action :: "ParsedError \<Rightarrow> FixSuggestion option \<Rightarrow> error + string option" where
  "generate_action parsed fix =
     (let after =
            (case (case fix of None \<Rightarrow> None | Some f \<Rightarrow> action_template f) of
               Some t \<Rightarrow>
                 if t \<noteq> []
                 then except_KeyError
                        (map_sum id Some (format_py t (extracted_values parsed))) (Inr None)
                 else Inr None
             | None \<Rightarrow> Inr None)
      in if error_type parsed = ''ModuleNotFoundError'' then
           (case extracted_values parsed ''package'' of
              Some package \<Rightarrow> if package \<noteq> [] then Inr (Some (''uv add '' @ package)) else after
            | None \<Rightarrow> after)
         else after)"

definition analyze_error :: "string \<Rightarrow> error + ErrorAnalysis" where
  "analyze_error traceback_text =
     (case parse_traceback traceback_text of
        Inl e \<Rightarrow> Inl e
      | Inr parsed \<Rightarrow>
          (let fix = map_of ERROR_FIX_MAP (error_type parsed) in
           case generate_claude_tip parsed fix of
             Inl e \<Rightarrow> Inl e
           | Inr tip \<Rightarrow>
               (case generate_claude_next parsed fix of
                  Inl e \<Rightarrow> Inl e
                | Inr nxt \<Rightarrow>
                    (case generate_action parsed fix of
                       Inl e \<Rightarrow> Inl e
                     | Inr action \<Rightarrow>
                         Inr \<lparr>parsed_error = parsed, fix_suggestion = fix,
                              claude_tip = tip, claude_next = nxt,
                              suggested_action = action\<rparr>))))"

section \<open>Response dictionaries\<close>

text \<open>
  A response is a \<open>dict[str, Any]\<close> that the caller owns and the wrappers receive by
  reference. The store is the list of the dictionaries that exist, an address is an
  index into it; \<open>dict(d)\<close> allocates a new dictionary with the entries of \<open>d\<close>, and
  \<open>d[k] = v\<close> changes the dictionary at one address. Values are the strings, integers,
  \<open>None\<close> and literal dictionaries the wrappers store, and \<open>PObj\<close> for whatever else the
  caller has put into a response.
\<close>

datatype 'a pyval =
    PStr string
  | PInt int
  | PNone
  | PDict "(string \<times> 'a pyval) list"
  | PObj 'a

type_synonym 'a pydict = "string \<rightharpoonup> 'a pyval"

type_synonym 'a store = "'a pydict list"

definition dict_copy :: "'a store \<Rightarrow> nat \<Rightarrow> 'a store \<times> nat" where
  "dict_copy h d = (h @ [h ! d], length h)"

definition setitem :: "'a store \<Rightarrow> nat \<Rightarrow> string \<Rightarrow> 'a pyval \<Rightarrow> 'a store" where
  "setitem h d k v = h[d := (h ! d)(k \<mapsto> v)]"

definition getitem :: "'a store \<Rightarrow> nat \<Rightarrow> string \<Rightarrow> error + 'a pyval" where
  "getitem h d k = (case (h ! d) k of None \<Rightarrow> Inl KeyError | Some v \<Rightarrow> Inr v)"

text \<open>\<open>d[k] += s\<close> for a string \<open>s\<close>: the entry is read, extended and stored again.\<close>

definition iadd_str :: "'a store \<Rightarrow> nat \<Rightarrow> string \<Rightarrow> string \<Rightarrow> error + 'a store" where
  "iadd_str h d k s =
     (case getitem h d k of
        Inl e \<Rightarrow> Inl e
      | Inr (PStr t) \<Rightarrow> Inr (setitem h d k (PStr (t @ s)))
      | Inr _ \<Rightarrow> Inl TypeError)"

definition opt_str :: "string option \<Rightarrow> 'a pyval" where
  "opt_str v = (case v of None \<Rightarrow> PNone | Some s \<Rightarrow> PStr s)"

definition opt_int :: "int option \<Rightarrow> 'a pyval" where
  "opt_int v = (case v of None \<Rightarrow> PNone | Some i \<Rightarrow> PInt i)"

text \<open>The truth value of an optional string or list: \<open>None\<close> and the empty one are false.\<close>

definition truthy :: "'b list option \<Rightarrow> bool" where
  "truthy v = (case v of None \<Rightarrow> False | Some xs \<Rightarrow> xs \<noteq> [])"

section \<open>\<open>ErrorHandler.enrich_response\<close>\<close>

definition enrich_response ::
  "'a store \<Rightarrow> nat \<Rightarrow> string \<Rightarrow> error + 'a store \<times> nat" where
  "enrich_response h response traceback_text =
     (case analyze_error traceback_text of
        Inl e \<Rightarrow> Inl e
      | Inr analysis \<Rightarrow>
          (let (h1, enriched) = dict_copy h response;
               h2 = setitem h1 enriched ''claude_tip'' (PStr (claude_tip analysis));
               h3 = setitem h2 enriched ''claude_next'' (PStr (claude_next analysis));
               h4 = (if truthy (suggested_action analysis)
                     then setitem h3 enriched ''suggested_action''
                            (opt_str (suggested_action analysis))
                     else h3);
               h5 = setitem h4 enriched ''error_details''
                      (PDict
                        [(''type'', PStr (error_type (parsed_error analysis))),
                         (''message'', PStr (error_message (parsed_error analysis))),
                         (''file'', opt_str (file_path (parsed_error analysis))),
                         (''line'', opt_int (line_number (parsed_error analysis))),
                         (''function'', opt_str (function_name (parsed_error analysis)))])
           in Inr (h5, enriched)))"

section \<open>middleware/response_wrapper.py\<close>

definition wrap_execution_success ::
  "'a store \<Rightarrow> nat \<Rightarrow> string option \<Rightarrow> string list option \<Rightarrow> error + 'a store \<times> nat" where
  "wrap_execution_success h response output namespace_vars =
     (let (h1, enriched) = dict_copy h response;
          h2 = setitem h1 enriched ''status'' (PStr ''success'');
          tips0 = (if truthy output
                   then [''Code executed successfully with output.'']
                   else [''Code executed successfully (no output).''])
      in case
           (if truthy namespace_vars then
              (let vars = (case namespace_vars of None \<Rightarrow> [] | Some vs \<Rightarrow> vs);
                   df_vars = filter (\<lambda>v. endswith v ''_df'' \<or> v = ''df'') vars
               in case
                    (if df_vars \<noteq> [] then
                       (case index_py df_vars 0 of
                          Inl e \<Rightarrow> Inl e
                        | Inr d0 \<Rightarrow>
                            Inr (tips0 @ [''DataFrames available: '' @ join_py '', '' df_vars],
                                 [''Explore data with '' @ d0 @ ''.head() or '' @ d0
                                    @ ''.describe()'']))
                     else Inr (tips0, []))
                  of
                    Inl e \<Rightarrow> Inl e
                  | Inr (tips1, next1) \<Rightarrow>
                      if length vars > 0 then
                        Inr (tips1 @ [''Namespace contains '' @ str_nat (length vars)
                                        @ '' variable(s).''],
                             next1 @ [''Use jupyter_inspect_namespace() to see all defined variables.''])
                      else Inr (tips1, next1))
            else Inr (tips0, []))
         of
           Inl e \<Rightarrow> Inl e
         | Inr (tips, next_steps) \<Rightarrow>
             (let h3 = setitem h2 enriched ''claude_tip''
                         (PStr (if tips \<noteq> [] then join_py '' '' tips
                                else ''Execution complete.''));
                  h4 = setitem h3 enriched ''claude_next''
                         (PStr (if next_steps \<noteq> [] then join_py '' '' next_steps
                                else ''Continue with your analysis.''))
              in Inr (h4, enriched)))"

definition wrap_execution_error ::
  "'a store \<Rightarrow> nat \<Rightarrow> string \<Rightarrow> error + 'a store \<times> nat" where
  "wrap_execution_error h response traceback_text =
     (let (h1, enriched) = dict_copy h response;
          h2 = setitem h1 enriched ''status'' (PStr ''error'')
      in enrich_response h2 enriched traceback_text)"

definition wrap_notebook_created ::
  "'a store \<Rightarrow> nat \<Rightarrow> string \<Rightarrow> string option \<Rightarrow> error + 'a store \<times> nat" where
  "wrap_notebook_created h response notebook_path kernel_name =
     (let (h1, enriched) = dict_copy h response;
          h2 = setitem h1 enriched ''status'' (PStr ''success'');
          h3 = setitem h2 enriched ''claude_tip''
                 (PStr (''Notebook created at '' @ notebook_path @ ''.''))
      in case
           (if truthy kernel_name
            then iadd_str h3 enriched ''claude_tip''
                   ('' Using kernel: '' @ (case kernel_name of None \<Rightarrow> [] | Some k \<Rightarrow> k)
                      @ ''.'')
            else Inr h3)
         of
           Inl e \<Rightarrow> Inl e
         | Inr h4 \<Rightarrow>
             Inr (setitem h4 enriched ''claude_next''
                    (PStr ''Add cells with jupyter_add_cell() or execute code with jupyter_execute_cell().''),
                  enriched))"

definition wrap_cell_added ::
  "'a store \<Rightarrow> nat \<Rightarrow> string \<Rightarrow> int \<Rightarrow> error + 'a store \<times> nat" where
  "wrap_cell_added h response cell_type cell_index =
     (let (h1, enriched) = dict_copy h response;
          h2 = setitem h1 enriched ''status'' (PStr ''success'');
          h3 = setitem h2 enriched ''claude_tip''
                 (PStr (capitalize cell_type @ '' cell added at index '' @ str_int cell_index
                          @ ''.''));
          h4 = (if cell_type = ''code''
                then setitem h3 enriched ''claude_next''
                       (PStr ''Execute the cell with jupyter_execute_cell().'')
                else setitem h3 enriched ''claude_next''
                       (PStr ''Add more cells or execute existing code cells.''))
      in Inr (h4, enriched))"

definition wrap_kernel_status ::
  "'a store \<Rightarrow> nat \<Rightarrow> bool \<Rightarrow> int option \<Rightarrow> error + 'a store \<times> nat" where
  "wrap_kernel_status h response is_alive execution_count =
     (let (h1, enriched) = dict_copy h response
      in if is_alive then
           (let h2 = setitem h1 enriched ''status'' (PStr ''running'');
                h3 = setitem h2 enriched ''claude_tip''
                       (PStr ''Kernel is running and ready for execution.'')
            in case
                 (case execution_count of
                    Some n \<Rightarrow>
                      iadd_str h3 enriched ''claude_tip''
                        ('' Execution count: '' @ str_int n @ ''.'')
                  | None \<Rightarrow> Inr h3)
               of
                 Inl e \<Rightarrow> Inl e
               | Inr h4 \<Rightarrow>
                   Inr (setitem h4 enriched ''claude_next''
                          (PStr ''Execute code with jupyter_execute_cell().''),
                        enriched))
         else
           (let h2 = setitem h1 enriched ''status'' (PStr ''stopped'');
                h3 = setitem h2 enriched ''claude_tip'' (PStr ''Kernel is not running.'');
                h4 = setitem h3 enriched ''claude_next''
                       (PStr ''Start the kernel or create a new notebook.'')
            in Inr (h4, enriched)))"

definition wrap_generic_success ::
  "'a store \<Rightarrow> nat \<Rightarrow> string \<Rightarrow> string option \<Rightarrow> error + 'a store \<times> nat" where
  "wrap_generic_success h response operation details =
     (let (h1, enriched) = dict_copy h response;
          h2 = setitem h1 enriched ''status'' (PStr ''success'');
          h3 = setitem h2 enriched ''claude_tip''
                 (PStr (operation @ '' completed successfully.''))
      in case
           (if truthy details
            then iadd_str h3 enriched ''claude_tip''
                   ('' '' @ (case details of None \<Rightarrow> [] | Some d \<Rightarrow> d))
            else Inr h3)
         of
           Inl e \<Rightarrow> Inl e
         | Inr h4 \<Rightarrow>
             Inr (setitem h4 enriched ''claude_next'' (PStr ''Continue with your workflow.''),
                  enriched))"

section \<open>Facts about the helpers\<close>

lemma split_chr_not_Nil: "split_chr c s \<noteq> []"
  by (induction s) (auto split: list.splits)

lemma hd_split_chr: "hd (split_chr c s) = takeWhile (\<lambda>x. x \<noteq> c) s"
  by (induction s) (auto split: list.splits simp: split_chr_not_Nil)

lemma index_split_chr_0:
  "index_py (split_chr c s) 0 = Inr (takeWhile (\<lambda>x. x \<noteq> c) s)"
proof -
  have "split_chr c s \<noteq> []" by (rule split_chr_not_Nil)
  then have "0 < length (split_chr c s)" by simp
  moreover have "split_chr c s ! 0 = hd (split_chr c s)"
    using \<open>split_chr c s \<noteq> []\<close> by (simp add: hd_conv_nth)
  ultimately show ?thesis by (simp add: index_py_def hd_split_chr)
qed

lemma package_values_nonempty:
  "map_of PACKAGE_NAME_MAP k = Some v \<Longrightarrow> v \<noteq> []"
  by (drule map_of_SomeD) (auto simp: PACKAGE_NAME_MAP_def)

lemma package_keys_core:
  "map_of PACKAGE_NAME_MAP k = Some ''google-cloud-core'' \<Longrightarrow> k = ''google.cloud''"
  by (drule map_of_SomeD) (auto simp: PACKAGE_NAME_MAP_def)

lemma takeWhile_no_dot: "CHR ''.'' \<notin> set (takeWhile (\<lambda>c. c \<noteq> CHR ''.'') s)"
  by (induction s) auto

section \<open>The package name resolver\<close>

text \<open>
  C5 (as amended). For every string \<open>s\<close>, \<open>get_correct_package_name s\<close> returns without
  raising; it returns the mapped package name when the leading dotted component of \<open>s\<close> is
  a key of \<open>PACKAGE_NAME_MAP\<close>, and \<open>s\<close> itself, whole, otherwise; the result is not the
  empty string whenever \<open>s\<close> is not the empty string.
\<close>

theorem get_correct_package_name_resolves:
  "(\<forall>p. map_of PACKAGE_NAME_MAP (leading_component s) = Some p
        \<longrightarrow> get_correct_package_name s = Inr p)
   \<and> (map_of PACKAGE_NAME_MAP (leading_component s) = None
        \<longrightarrow> get_correct_package_name s = Inr s)
   \<and> (\<exists>r. get_correct_package_name s = Inr r \<and> (s \<noteq> [] \<longrightarrow> r \<noteq> []))"
proof -
  have eq: "get_correct_package_name s =
      Inr (case map_of PACKAGE_NAME_MAP (leading_component s) of
             Some package \<Rightarrow> package | None \<Rightarrow> s)"
    by (simp add: get_correct_package_name_def index_split_chr_0 leading_component_def)
  show ?thesis
    using package_values_nonempty [of "leading_component s"]
    by (auto simp: eq split: option.splits)
qed

theorem get_correct_package_name_resolves_witness:
  "map_of PACKAGE_NAME_MAP (leading_component ''sklearn.ensemble'') = Some ''scikit-learn''
   \<and> get_correct_package_name ''sklearn.ensemble'' = Inr ''scikit-learn''
   \<and> map_of PACKAGE_NAME_MAP (leading_component ''numpy.linalg'') = None
   \<and> get_correct_package_name ''numpy.linalg'' = Inr ''numpy.linalg''"
proof -
  have a: "map_of PACKAGE_NAME_MAP (leading_component ''sklearn.ensemble'') = Some ''scikit-learn''"
    by (simp add: PACKAGE_NAME_MAP_def leading_component_def)
  have b: "map_of PACKAGE_NAME_MAP (leading_component ''numpy.linalg'') = None"
    by (simp add: PACKAGE_NAME_MAP_def leading_component_def)
  show ?thesis
    using a b get_correct_package_name_resolves [of "''sklearn.ensemble''"]
      get_correct_package_name_resolves [of "''numpy.linalg''"]
    by simp
qed

text \<open>
  C5 as stated fails: for the empty string the leading component is the empty string, which
  is no key of the mapping, and the input is returned unchanged, so the result is empty.
\<close>

theorem get_correct_package_name_empty_counterexample:
  "get_correct_package_name [] = Inr []"
  by (simp add: get_correct_package_name_def index_py_def PACKAGE_NAME_MAP_def)

text \<open>
  C10 (as amended). The lookup key, the part of \<open>s\<close> before its first dot, holds no dot, so
  the entry keyed \<open>google.cloud\<close> is never found: \<open>get_correct_package_name s\<close> is
  \<open>google-cloud-core\<close> only when \<open>s\<close> is itself \<open>google-cloud-core\<close> (returned unchanged),
  and \<open>google.cloud\<close> is returned unchanged.
\<close>

theorem google_cloud_entry_unreachable:
  "map_of PACKAGE_NAME_MAP (leading_component s) \<noteq> Some ''google-cloud-core''
   \<and> (get_correct_package_name s = Inr ''google-cloud-core'') = (s = ''google-cloud-core'')
   \<and> get_correct_package_name ''google.cloud'' = Inr ''google.cloud''"
proof -
  have key: "map_of PACKAGE_NAME_MAP (leading_component s) \<noteq> Some ''google-cloud-core''"
  proof
    assume "map_of PACKAGE_NAME_MAP (leading_component s) = Some ''google-cloud-core''"
    then have "leading_component s = ''google.cloud''" by (rule package_keys_core)
    moreover have "CHR ''.'' \<notin> set (leading_component s)"
      unfolding leading_component_def by (rule takeWhile_no_dot)
    ultimately show False by simp
  qed
  have eq: "get_correct_package_name s =
      Inr (case map_of PACKAGE_NAME_MAP (leading_component s) of
             Some package \<Rightarrow> package | None \<Rightarrow> s)"
    by (simp add: get_correct_package_name_def index_split_chr_0 leading_component_def)
  have iff: "(get_correct_package_name s = Inr ''google-cloud-core'') = (s = ''google-cloud-core'')"
  proof
    assume "get_correct_package_name s = Inr ''google-cloud-core''"
    with key show "s = ''google-cloud-core''"
      by (auto simp: eq split: option.splits)
  next
    assume "s = ''google-cloud-core''"
    then show "get_correct_package_name s = Inr ''google-cloud-core''"
      by (simp add: get_correct_package_name_def index_py_def PACKAGE_NAME_MAP_def)
  qed
  have gc: "get_correct_package_name ''google.cloud'' = Inr ''google.cloud''"
    by (simp add: get_correct_package_name_def index_py_def PACKAGE_NAME_MAP_def)
  from key iff gc show ?thesis by simp
qed

theorem google_cloud_entry_unreachable_witness:
  "get_correct_package_name ''google.cloud.storage'' \<noteq> Inr ''google-cloud-core''
   \<and> get_correct_package_name ''google.cloud.storage'' = Inr ''google.cloud.storage''"
proof -
  have "get_correct_package_name ''google.cloud.storage'' = Inr ''google.cloud.storage''"
    by (simp add: get_correct_package_name_def index_py_def PACKAGE_NAME_MAP_def)
  then show ?thesis
    using google_cloud_entry_unreachable [of "''google.cloud.storage''"] by simp
qed

text \<open>
  C10 as stated fails: the input \<open>google-cloud-core\<close> has no dot and is no key of the
  mapping, so it is returned unchanged, and the function does return that string.
\<close>

theorem google_cloud_core_returned_counterexample:
  "get_correct_package_name ''google-cloud-core'' = Inr ''google-cloud-core''"
  by (simp add: get_correct_package_name_def index_py_def PACKAGE_NAME_MAP_def)

end
